theory Spec2Isabelle
  imports Main
begin

section \<open>Strings of the source language\<close>

text \<open>
  A TypeScript string is a sequence of UTF-16 code units. A code unit is modelled by
  its numeric value, so a string is a list of naturals; every string of the program is
  such a list with entries below 65536, and none of the functions below does arithmetic
  on a code unit. ASCII literals of the source are written \<open>str ''...''\<close>.
\<close>

type_synonym jsstring = "nat list"

definition str :: "string \<Rightarrow> jsstring" where
  "str s = map of_char s"

text \<open>The characters matched by \<open>\s\<close> in a regular expression and removed by \<open>trim\<close>.\<close>

definition isWhiteSpace :: "nat \<Rightarrow> bool" where
  "isWhiteSpace c \<longleftrightarrow>
     c = 9 \<or> c = 10 \<or> c = 11 \<or> c = 12 \<or> c = 13 \<or> c = 32 \<or> c = 160 \<or> c = 5760
     \<or> (8192 \<le> c \<and> c \<le> 8202) \<or> c = 8232 \<or> c = 8233 \<or> c = 8239 \<or> c = 8287
     \<or> c = 12288 \<or> c = 65279"

text \<open>\<open>Array.prototype.join\<close> on strings.\<close>

fun join :: "jsstring \<Rightarrow> jsstring list \<Rightarrow> jsstring" where
  "join sep [] = []"
| "join sep [x] = x"
| "join sep (x # y # ys) = x @ sep @ join sep (y # ys)"

text \<open>Decimal rendering of a number that holds an integer, as a template literal does.\<close>

fun digits :: "nat \<Rightarrow> jsstring" where
  "digits n = (if n < 10 then [48 + n] else digits (n div 10) @ [48 + n mod 10])"

declare digits.simps [simp del]

definition numberToString :: "int \<Rightarrow> jsstring" where
  "numberToString i = (if i < 0 then 45 # digits (nat (- i)) else digits (nat i))"

section \<open>security.ts: filename sanitisation\<close>

text \<open>
  \<^verbatim>\<open>
  export function sanitizeFilename(filename: string): string {
    return filename
      .replace(/[^a-zA-Z0-9._-]/g, '_') // Replace unsafe characters
      .replace(/^\.+/, '') // Remove leading dots
      .replace(/\.+$/, '') // Remove trailing dots
      .substring(0, 255); // Limit length
  }
  \<close>
\<close>

text \<open>The character class \<open>[a-zA-Z0-9._-]\<close>.\<close>

definition safeFilenameChar :: "nat \<Rightarrow> bool" where
  "safeFilenameChar c \<longleftrightarrow>
     (97 \<le> c \<and> c \<le> 122) \<or> (65 \<le> c \<and> c \<le> 90) \<or> (48 \<le> c \<and> c \<le> 57)
     \<or> c = 46 \<or> c = 95 \<or> c = 45"

text \<open>\<open>.replace(/[^a-zA-Z0-9._-]/g, '_')\<close>: every code unit outside the class becomes \<open>_\<close>.\<close>

fun replaceUnsafe :: "jsstring \<Rightarrow> jsstring" where
  "replaceUnsafe [] = []"
| "replaceUnsafe (c # cs) = (if safeFilenameChar c then c else 95) # replaceUnsafe cs"

text \<open>\<open>.replace(/^\.+/, '')\<close>: the match can only start at index 0 and takes every dot there.\<close>

fun removeLeadingDots :: "jsstring \<Rightarrow> jsstring" where
  "removeLeadingDots [] = []"
| "removeLeadingDots (c # cs) = (if c = 46 then removeLeadingDots cs else c # cs)"

text \<open>
  \<open>.replace(/\.+$/, '')\<close>: the search tries each index from the left; the pattern matches
  at an index when a dot stands there and only dots follow up to the end of the string.
  The first match is removed.
\<close>

fun allDots :: "jsstring \<Rightarrow> bool" where
  "allDots [] = True"
| "allDots (c # cs) = (c = 46 \<and> allDots cs)"

fun removeTrailingDots :: "jsstring \<Rightarrow> jsstring" where
  "removeTrailingDots [] = []"
| "removeTrailingDots (c # cs) =
     (if c = 46 \<and> allDots cs then [] else c # removeTrailingDots cs)"

definition substring0 :: "nat \<Rightarrow> jsstring \<Rightarrow> jsstring" where
  "substring0 n s = take n s"

definition sanitizeFilename :: "jsstring \<Rightarrow> jsstring" where
  "sanitizeFilename filename =
     substring0 255 (removeTrailingDots (removeLeadingDots (replaceUnsafe filename)))"

section \<open>security.ts: the malicious-content heuristic\<close>

text \<open>
  The nine patterns of \<open>detectMaliciousContent\<close> use only literals (matched without regard
  to case, flag \<open>i\<close>), the classes \<open>\s\<close> and \<open>[^>]\<close>, and the star. A pattern is a
  list of items; \<open>matchHere\<close> is the backtracking match of a pattern at the start of a
  string and \<open>regexTest\<close> is \<open>RegExp.prototype.test\<close>: a match at some index.
\<close>

datatype atom = Lit nat | NotChar nat | Space

datatype item = One atom | Star atom

definition toUpperASCII :: "nat \<Rightarrow> nat" where
  "toUpperASCII c = (if 97 \<le> c \<and> c \<le> 122 then c - 32 else c)"

fun atomMatches :: "atom \<Rightarrow> nat \<Rightarrow> bool" where
  "atomMatches (Lit p) c = (toUpperASCII c = toUpperASCII p)"
| "atomMatches (NotChar p) c = (c \<noteq> p)"
| "atomMatches Space c = isWhiteSpace c"

fun matchHere :: "item list \<Rightarrow> jsstring \<Rightarrow> bool" where
  "matchHere [] s = True"
| "matchHere (One a # r) [] = False"
| "matchHere (One a # r) (c # cs) = (atomMatches a c \<and> matchHere r cs)"
| "matchHere (Star a # r) [] = matchHere r []"
| "matchHere (Star a # r) (c # cs) =
     ((atomMatches a c \<and> matchHere (Star a # r) cs) \<or> matchHere r (c # cs))"

fun regexTest :: "item list \<Rightarrow> jsstring \<Rightarrow> bool" where
  "regexTest p [] = matchHere p []"
| "regexTest p (c # cs) = (matchHere p (c # cs) \<or> regexTest p cs)"

definition lits :: "string \<Rightarrow> item list" where
  "lits s = map (\<lambda>c. One (Lit (of_char c))) s"

text \<open>
  \<^verbatim>\<open>
  const suspiciousPatterns = [
    /<script[^>]*>/i, /javascript:/i, /data:text\/html/i, /vbscript:/i,
    /onload\s*=/i, /onerror\s*=/i, /onclick\s*=/i, /eval\s*\(/i, /document\.write/i,
  ];
  return suspiciousPatterns.some(pattern => pattern.test(content));
  \<close>
\<close>

definition suspiciousPatterns :: "item list list" where
  "suspiciousPatterns =
     [lits ''<script'' @ [Star (NotChar 62), One (Lit 62)],
      lits ''javascript:'',
      lits ''data:text/html'',
      lits ''vbscript:'',
      lits ''onload'' @ [Star Space, One (Lit 61)],
      lits ''onerror'' @ [Star Space, One (Lit 61)],
      lits ''onclick'' @ [Star Space, One (Lit 61)],
      lits ''eval'' @ [Star Space, One (Lit 40)],
      lits ''document.write'']"

definition detectMaliciousContent :: "jsstring \<Rightarrow> bool" where
  "detectMaliciousContent content = list_ex (\<lambda>pattern. regexTest pattern content) suspiciousPatterns"

section \<open>security.ts: the rate limiter\<close>

text \<open>
  \<^verbatim>\<open>
  class RateLimiter {
    private requests: number[] = [];
    private readonly maxRequests: number;
    private readonly windowMs: number;
    constructor(maxRequests: number = 10, windowMs: number = 60000) { ... }
    canMakeRequest(): boolean {
      const now = Date.now();
      this.requests = this.requests.filter(time => now - time < this.windowMs);
      if (this.requests.length >= this.maxRequests) { return false; }
      this.requests.push(now);
      return true;
    }
    getRemainingRequests(): number {
      const now = Date.now();
      this.requests = this.requests.filter(time => now - time < this.windowMs);
      return Math.max(0, this.maxRequests - this.requests.length);
    }
  }
  \<close>
  The object is a record that each method returns updated; the reading of the clock,
  \<open>Date.now()\<close>, is an argument of the method. Times are integer milliseconds.
\<close>

record RateLimiter =
  requests :: "int list"
  maxRequests :: int
  windowMs :: int

definition newRateLimiter :: "int \<Rightarrow> int \<Rightarrow> RateLimiter" where
  "newRateLimiter m w = \<lparr>requests = [], maxRequests = m, windowMs = w\<rparr>"

definition rateLimiter :: RateLimiter where
  "rateLimiter = newRateLimiter 10 60000"

text \<open>\<open>this.requests.filter(time => now - time < this.windowMs)\<close>, the first step of both methods.\<close>

definition prune :: "int \<Rightarrow> RateLimiter \<Rightarrow> int list" where
  "prune now rl = filter (\<lambda>time. now - time < windowMs rl) (requests rl)"

definition canMakeRequest :: "int \<Rightarrow> RateLimiter \<Rightarrow> bool \<times> RateLimiter" where
  "canMakeRequest now rl =
     (let kept = prune now rl in
      if maxRequests rl \<le> int (length kept)
      then (False, rl\<lparr>requests := kept\<rparr>)
      else (True, rl\<lparr>requests := kept @ [now]\<rparr>))"

definition getRemainingRequests :: "int \<Rightarrow> RateLimiter \<Rightarrow> int \<times> RateLimiter" where
  "getRemainingRequests now rl =
     (let kept = prune now rl in
      (max 0 (maxRequests rl - int (length kept)), rl\<lparr>requests := kept\<rparr>))"

text \<open>A sequence of method calls, each with the time the clock shows when it runs.\<close>

datatype call = CanMakeRequest int | GetRemainingRequests int

fun callTime :: "call \<Rightarrow> int" where
  "callTime (CanMakeRequest now) = now"
| "callTime (GetRemainingRequests now) = now"

fun runCall :: "RateLimiter \<Rightarrow> call \<Rightarrow> RateLimiter" where
  "runCall rl (CanMakeRequest now) = snd (canMakeRequest now rl)"
| "runCall rl (GetRemainingRequests now) = snd (getRemainingRequests now rl)"

definition runCalls :: "RateLimiter \<Rightarrow> call list \<Rightarrow> RateLimiter" where
  "runCalls rl calls = foldl runCall rl calls"

section \<open>markdown-parser.ts: tokens and their renderings\<close>

text \<open>
  A \<open>marked.Token\<close> is a tagged union. The constructors carry the fields the
  program reads: \<open>raw\<close> first, then \<open>depth\<close> and \<open>text\<close> of a heading,
  \<open>text\<close> of a paragraph, \<open>ordered\<close> and \<open>items\<close> of a list, \<open>lang\<close> and
  \<open>text\<close> of a code block, \<open>text\<close> of a blockquote. \<open>OtherTok\<close> is a token of
  any other type (\<open>space\<close>, \<open>html\<close>, \<open>table\<close>, ...), with its \<open>type\<close> and
  \<open>raw\<close>. Of a list item only \<open>text\<close> is read.
\<close>

datatype list_item = ListItem jsstring

datatype token =
    Heading jsstring nat jsstring
  | Paragraph jsstring jsstring
  | ListTok jsstring bool "list_item list"
  | CodeTok jsstring "jsstring option" jsstring
  | Blockquote jsstring jsstring
  | Hr jsstring
  | OtherTok jsstring jsstring

fun itemText :: "list_item \<Rightarrow> jsstring" where
  "itemText (ListItem t) = t"

fun tokenType :: "token \<Rightarrow> jsstring" where
  "tokenType (Heading raw depth txt) = str ''heading''"
| "tokenType (Paragraph raw txt) = str ''paragraph''"
| "tokenType (ListTok raw ordered items) = str ''list''"
| "tokenType (CodeTok raw lang txt) = str ''code''"
| "tokenType (Blockquote raw txt) = str ''blockquote''"
| "tokenType (Hr raw) = str ''hr''"
| "tokenType (OtherTok ty raw) = ty"

text \<open>\<open>a || b\<close> for an optional string \<open>a\<close>: \<open>undefined\<close> and the empty string are falsy.\<close>

fun orElse :: "jsstring option \<Rightarrow> jsstring \<Rightarrow> jsstring" where
  "orElse None b = b"
| "orElse (Some a) b = (if a = [] then b else a)"

text \<open>The objects built by \<open>toJSON\<close> and \<open>convertToJSON\<close>; an object keeps its keys in order.\<close>

datatype json =
    JString jsstring
  | JNumber int
  | JBool bool
  | JArray "json list"
  | JObject "(string \<times> json) list"

text \<open>
  \<^verbatim>\<open>
  private tokenToJSON(token: marked.Token): object {
    const base = { type: token.type };
    switch (token.type) {
      case 'heading':    return { ...base, level: token.depth, text: token.text };
      case 'paragraph':  return { ...base, text: token.text };
      case 'list':       return { ...base, ordered: token.ordered,
                                  items: token.items.map(item => ({ type: 'list_item', text: item.text })) };
      case 'code':       return { ...base, language: token.lang || 'text', code: token.text };
      case 'blockquote': return { ...base, text: token.text };
      default:           return { ...base, raw: token.raw };
    }
  }
  \<close>
\<close>

definition base :: "token \<Rightarrow> (string \<times> json) list" where
  "base token = [(''type'', JString (tokenType token))]"

fun tokenToJSON :: "token \<Rightarrow> json" where
  "tokenToJSON (Heading raw depth txt) =
     JObject (base (Heading raw depth txt) @ [(''level'', JNumber (int depth)), (''text'', JString txt)])"
| "tokenToJSON (Paragraph raw txt) =
     JObject (base (Paragraph raw txt) @ [(''text'', JString txt)])"
| "tokenToJSON (ListTok raw ordered items) =
     JObject (base (ListTok raw ordered items) @
       [(''ordered'', JBool ordered),
        (''items'', JArray (map (\<lambda>item. JObject [(''type'', JString (str ''list_item'')),
                                                  (''text'', JString (itemText item))]) items))])"
| "tokenToJSON (CodeTok raw lang txt) =
     JObject (base (CodeTok raw lang txt) @
       [(''language'', JString (orElse lang (str ''text''))), (''code'', JString txt)])"
| "tokenToJSON (Blockquote raw txt) =
     JObject (base (Blockquote raw txt) @ [(''text'', JString txt)])"
| "tokenToJSON (Hr raw) = JObject (base (Hr raw) @ [(''raw'', JString raw)])"
| "tokenToJSON (OtherTok ty raw) = JObject (base (OtherTok ty raw) @ [(''raw'', JString raw)])"

definition toJSON :: "token list \<Rightarrow> json" where
  "toJSON tokens =
     JObject [(''type'', JString (str ''document'')), (''children'', JArray (map tokenToJSON tokens))]"

text \<open>
  \<^verbatim>\<open>
  private tokenToPlainText(token: marked.Token): string {
    switch (token.type) {
      case 'heading':
        const prefix = '#'.repeat(token.depth);
        return `${prefix} ${token.text}`;
      case 'paragraph':
        return token.text;
      case 'list':
        return token.items
          .map((item, index) => {
            const bullet = token.ordered ? `${index + 1}.` : '...';
            return `${bullet} ${item.text}`;
          })
          .join('\n');
      case 'code':
        return `\`\`\`${token.lang || ''}\n${token.text}\n\`\`\``;
      case 'blockquote':
        return `> ${token.text}`;
      case 'hr':
        return '---';
      default:
        return token.raw || '';
    }
  }
  \<close>
  The string literal of the unordered \<open>bullet\<close> holds, in the source file, the three
  characters U+00E2, U+20AC, U+00A2 (the bytes of U+2022 BULLET read as Windows-1252).
\<close>

definition unorderedBullet :: jsstring where
  "unorderedBullet = [226, 8364, 162]"

definition bullet :: "bool \<Rightarrow> nat \<Rightarrow> jsstring" where
  "bullet ordered index = (if ordered then numberToString (int index + 1) @ [46] else unorderedBullet)"

fun itemsToPlainText :: "bool \<Rightarrow> nat \<Rightarrow> list_item list \<Rightarrow> jsstring list" where
  "itemsToPlainText ordered index [] = []"
| "itemsToPlainText ordered index (item # rest) =
     (bullet ordered index @ [32] @ itemText item) # itemsToPlainText ordered (Suc index) rest"

fun tokenToPlainText :: "token \<Rightarrow> jsstring" where
  "tokenToPlainText (Heading raw depth txt) = replicate depth 35 @ [32] @ txt"
| "tokenToPlainText (Paragraph raw txt) = txt"
| "tokenToPlainText (ListTok raw ordered items) = join [10] (itemsToPlainText ordered 0 items)"
| "tokenToPlainText (CodeTok raw lang txt) =
     [96, 96, 96] @ orElse lang [] @ [10] @ txt @ [10] @ [96, 96, 96]"
| "tokenToPlainText (Blockquote raw txt) = [62, 32] @ txt"
| "tokenToPlainText (Hr raw) = str ''---''"
| "tokenToPlainText (OtherTok ty raw) = orElse (Some raw) []"

definition toPlainText :: "token list \<Rightarrow> jsstring" where
  "toPlainText tokens = join [10, 10] (map tokenToPlainText tokens)"

section \<open>markdown-parser.ts: the parser object and its collaborators\<close>

text \<open>
  A thrown value is an \<open>Error\<close> object with its message, or any other value.
  A computation that may throw returns a sum, \<open>Inl\<close> the thrown value.
\<close>

datatype exn = ErrorObj jsstring | NonError

record MarkdownParserOptions =
  sanitize :: bool
  allowHtml :: bool
  breaks :: bool
  gfm :: bool

definition DEFAULT_OPTIONS :: MarkdownParserOptions where
  "DEFAULT_OPTIONS = \<lparr>sanitize = True, allowHtml = False, breaks = True, gfm = True\<rparr>"

text \<open>The options handed to \<open>marked.setOptions\<close>, and the renderer handed to \<open>marked.use\<close>.\<close>

record marked_options =
  marked_breaks :: bool
  marked_gfm :: bool
  marked_sanitize :: bool

record renderer =
  link :: "jsstring \<Rightarrow> jsstring option \<Rightarrow> jsstring \<Rightarrow> jsstring"
  image :: "jsstring \<Rightarrow> jsstring option \<Rightarrow> jsstring \<Rightarrow> jsstring"
  html_override :: "jsstring option"

text \<open>The configuration object of the call of \<open>DOMPurify.sanitize\<close>.\<close>

record purify_config =
  ALLOWED_TAGS :: "string list"
  ALLOWED_ATTR :: "string list"
  FORBID_SCRIPTS :: bool
  FORBID_TAGS :: "string list"
  FORBID_ATTR :: "string list"

text \<open>
  What the program calls and does not define: the two entry points of the library
  \<open>marked\<close>, \<open>DOMPurify.sanitize\<close>, the test \<open>typeof window !== 'undefined'\<close>, the
  constructor \<open>URL\<close> (\<open>None\<close> when it throws, otherwise the \<open>protocol\<close> of the parsed
  URL), the clock and \<open>JSON.stringify\<close>. They are the fields of an environment that
  every function below takes; each of the library calls may throw.
\<close>

record env =
  marked_lexer :: "marked_options \<Rightarrow> jsstring \<Rightarrow> exn + token list"
  marked_parser :: "marked_options \<Rightarrow> renderer \<Rightarrow> token list \<Rightarrow> exn + jsstring"
  DOMPurify_sanitize :: "purify_config \<Rightarrow> jsstring \<Rightarrow> exn + jsstring"
  window_defined :: bool
  URL_protocol :: "jsstring \<Rightarrow> jsstring option"
  Date_now :: int
  Date_toISOString :: jsstring
  Date_toLocaleString :: jsstring
  JSON_stringify :: "nat option \<Rightarrow> json \<Rightarrow> exn + jsstring"

text \<open>
  \<^verbatim>\<open>
  private sanitizeUrl(url: string): string {
    const safeProtocols = ['http:', 'https:', 'mailto:'];
    try {
      const parsed = new URL(url);
      if (safeProtocols.includes(parsed.protocol)) { return url; }
    } catch { /* Invalid URL */ }
    return '#';
  }
  \<close>
\<close>

definition safeProtocols :: "jsstring list" where
  "safeProtocols = [str ''http:'', str ''https:'', str ''mailto:'']"

definition sanitizeUrl :: "env \<Rightarrow> jsstring \<Rightarrow> jsstring" where
  "sanitizeUrl e url =
     (case URL_protocol e url of
        None \<Rightarrow> str ''#''
      | Some protocol \<Rightarrow> if protocol \<in> set safeProtocols then url else str ''#'')"

text \<open>\<open>text.replace(/[&<>"']/g, char => escapeMap[char])\<close>\<close>

definition escapeChar :: "nat \<Rightarrow> jsstring" where
  "escapeChar c =
     (if c = 38 then str ''&amp;''
      else if c = 60 then str ''&lt;''
      else if c = 62 then str ''&gt;''
      else if c = 34 then str ''&quot;''
      else if c = 39 then str ''&#39;''
      else [c])"

definition escapeHtml :: "jsstring \<Rightarrow> jsstring" where
  "escapeHtml txt = concat (map escapeChar txt)"

text \<open>\<open>title ? ` title="${this.escapeHtml(title)}"` : ''\<close>, for a title that may be \<open>null\<close>.\<close>

definition titleAttr :: "jsstring option \<Rightarrow> jsstring" where
  \<open>titleAttr title =
     (case title of
        None \<Rightarrow> []
      | Some t \<Rightarrow> if t = [] then [] else str '' title="'' @ escapeHtml t @ str ''"'')\<close>

definition renderLink :: "env \<Rightarrow> jsstring \<Rightarrow> jsstring option \<Rightarrow> jsstring \<Rightarrow> jsstring" where
  \<open>renderLink e href title txt =
     str ''<a href="'' @ sanitizeUrl e href @ str ''" target="_blank" rel="noopener noreferrer"''
       @ titleAttr title @ str ''>'' @ txt @ str ''</a>''\<close>

definition renderImage :: "env \<Rightarrow> jsstring \<Rightarrow> jsstring option \<Rightarrow> jsstring \<Rightarrow> jsstring" where
  \<open>renderImage e href title txt =
     str ''<img src="'' @ sanitizeUrl e href @ str ''"'' @ (str '' alt="'' @ escapeHtml txt @ str ''"'')
       @ titleAttr title @ str '' loading="lazy">''\<close>

text \<open>
  \<open>configureMarked\<close>: the options and the renderer installed in \<open>marked\<close>. The renderer
  of raw HTML is replaced by \<open>() => ''\<close> unless \<open>allowHtml\<close> is set.
\<close>

definition configuredOptions :: "MarkdownParserOptions \<Rightarrow> marked_options" where
  "configuredOptions opts =
     \<lparr>marked_breaks = breaks opts, marked_gfm = gfm opts, marked_sanitize = False\<rparr>"

definition configuredRenderer :: "env \<Rightarrow> MarkdownParserOptions \<Rightarrow> renderer" where
  "configuredRenderer e opts =
     \<lparr>link = renderLink e, image = renderImage e,
      html_override = (if \<not> allowHtml opts then Some [] else None)\<rparr>"

definition sanitizeConfig :: purify_config where
  "sanitizeConfig =
     \<lparr>ALLOWED_TAGS =
        [''h1'', ''h2'', ''h3'', ''h4'', ''h5'', ''h6'',
         ''p'', ''br'', ''strong'', ''em'', ''u'', ''s'',
         ''ul'', ''ol'', ''li'', ''blockquote'',
         ''code'', ''pre'', ''a'', ''img'',
         ''table'', ''thead'', ''tbody'', ''tr'', ''td'', ''th''],
      ALLOWED_ATTR = [''href'', ''src'', ''alt'', ''title'', ''target'', ''rel''],
      FORBID_SCRIPTS = True,
      FORBID_TAGS = [''script'', ''object'', ''embed'', ''form'', ''input''],
      FORBID_ATTR = [''onclick'', ''onload'', ''onerror'', ''onmouseover'', ''style'']\<rparr>"

record ParsedMarkdown =
  html :: jsstring
  tokens :: "token list"
  plainText :: jsstring

text \<open>
  \<^verbatim>\<open>
  public parse(markdown: string): ParsedMarkdown {
    const tokens = marked.lexer(markdown);
    let html = marked.parser(tokens);
    if (this.options.sanitize && typeof window !== 'undefined') {
      html = DOMPurify.sanitize(html, { ALLOWED_TAGS: [...], ... });
    }
    const plainText = this.toPlainText(tokens);
    return { html, tokens, plainText };
  }
  \<close>
  \<open>marked\<close> keeps its options and renderer in one global configuration, written by
  \<open>configureMarked\<close> in the constructor of the parser. The program builds every parser
  with the same options, so the configuration that \<open>marked.lexer\<close> and
  \<open>marked.parser\<close> run under is the one of the parser that calls them, and the model
  passes it to them as arguments.
\<close>

definition parse :: "env \<Rightarrow> MarkdownParserOptions \<Rightarrow> jsstring \<Rightarrow> exn + ParsedMarkdown" where
  "parse e opts markdown =
     (case marked_lexer e (configuredOptions opts) markdown of
        Inl err \<Rightarrow> Inl err
      | Inr toks \<Rightarrow>
          (case marked_parser e (configuredOptions opts) (configuredRenderer e opts) toks of
             Inl err \<Rightarrow> Inl err
           | Inr rendered \<Rightarrow>
               (case (if sanitize opts \<and> window_defined e
                      then DOMPurify_sanitize e sanitizeConfig rendered
                      else Inr rendered) of
                  Inl err \<Rightarrow> Inl err
                | Inr h \<Rightarrow> Inr \<lparr>html = h, tokens = toks, plainText = toPlainText toks\<rparr>)))"

section \<open>converters.ts: the format converter\<close>

record ConversionResult =
  content :: jsstring
  filename :: jsstring
  mimeType :: jsstring
  success :: bool
  error :: "jsstring option"

text \<open>An option left out is \<open>undefined\<close>: \<open>None\<close> for the name, \<open>False\<close> for a flag.\<close>

record ConversionOptions =
  originalFilename :: "jsstring option"
  prettify :: bool
  includeMetadata :: bool

text \<open>The parser the constructor of \<open>FileConverter\<close> builds.\<close>

definition converterParserOptions :: MarkdownParserOptions where
  "converterParserOptions = \<lparr>sanitize = True, allowHtml = False, breaks = True, gfm = True\<rparr>"

text \<open>
  \<open>originalFilename.replace(/\.[^/.]+$/, '')\<close>: the pattern matches at an index when a dot
  stands there and at least one character follows, none of them a slash or a dot, up to
  the end of the string; the first match is removed.
\<close>

fun removeExtension :: "jsstring \<Rightarrow> jsstring" where
  "removeExtension [] = []"
| "removeExtension (c # cs) =
     (if c = 46 \<and> cs \<noteq> [] \<and> list_all (\<lambda>x. x \<noteq> 47 \<and> x \<noteq> 46) cs then []
      else c # removeExtension cs)"

text \<open>
  \<^verbatim>\<open>
  private getBaseFilename(originalFilename?: string): string {
    if (!originalFilename) { return `converted_${Date.now()}`; }
    const nameWithoutExt = originalFilename.replace(/\.[^/.]+$/, '');
    return sanitizeFilename(nameWithoutExt) || `converted_${Date.now()}`;
  }
  \<close>
\<close>

text \<open>The template literal \<open>`converted_${Date.now()}`\<close>.\<close>

definition convertedNow :: "env \<Rightarrow> jsstring" where
  "convertedNow e = str ''converted_'' @ numberToString (Date_now e)"

definition getBaseFilename :: "env \<Rightarrow> jsstring option \<Rightarrow> jsstring" where
  "getBaseFilename e original =
     (case original of
        None \<Rightarrow> convertedNow e
      | Some name \<Rightarrow>
          if name = [] then convertedNow e
          else orElse (Some (sanitizeFilename (removeExtension name))) (convertedNow e))"

definition generateMetadata :: "env \<Rightarrow> jsstring" where
  \<open>generateMetadata e =
     [10] @ str ''    <meta name="generator" content="Markdown Converter">'' @
     [10] @ str ''    <meta name="converted-at" content="'' @ Date_toISOString e @ str ''">'' @
     [10] @ str ''    <meta name="format" content="html">''\<close>

text \<open>The stylesheet returned by \<open>getHTMLStyles\<close>, line by line.\<close>

definition getHTMLStyles :: jsstring where
  \<open>getHTMLStyles = join [10] (map str
    ['''',
     ''      body {'',
     ''        font-family: -apple-system, BlinkMacSystemFont, 'Segoe UI', 'Roboto', 'Oxygen', 'Ubuntu', 'Cantarell', sans-serif;'',
     ''        line-height: 1.6;'',
     ''        color: #333;'',
     ''        max-width: 800px;'',
     ''        margin: 0 auto;'',
     ''        padding: 2rem;'',
     ''        background-color: #fff;'',
     ''      }'',
     ''      '',
     ''      .markdown-content {'',
     ''        font-size: 16px;'',
     ''      }'',
     ''      '',
     ''      h1, h2, h3, h4, h5, h6 {'',
     ''        margin-top: 2rem;'',
     ''        margin-bottom: 1rem;'',
     ''        font-weight: 600;'',
     ''        line-height: 1.25;'',
     ''      }'',
     ''      '',
     ''      h1 { font-size: 2rem; border-bottom: 2px solid #eaecef; padding-bottom: 0.3rem; }'',
     ''      h2 { font-size: 1.5rem; border-bottom: 1px solid #eaecef; padding-bottom: 0.3rem; }'',
     ''      h3 { font-size: 1.25rem; }'',
     ''      h4 { font-size: 1rem; }'',
     ''      h5 { font-size: 0.875rem; }'',
     ''      h6 { font-size: 0.85rem; color: #6a737d; }'',
     ''      '',
     ''      p { margin-bottom: 1rem; }'',
     ''      '',
     ''      a {'',
     ''        color: #0366d6;'',
     ''        text-decoration: none;'',
     ''      }'',
     ''      '',
     ''      a:hover {'',
     ''        text-decoration: underline;'',
     ''      }'',
     ''      '',
     ''      blockquote {'',
     ''        padding: 0 1rem;'',
     ''        color: #6a737d;'',
     ''        border-left: 4px solid #dfe2e5;'',
     ''        margin: 1rem 0;'',
     ''      }'',
     ''      '',
     ''      code {'',
     ''        padding: 0.2rem 0.4rem;'',
     ''        margin: 0;'',
     ''        font-size: 85%;'',
     ''        background-color: rgba(27,31,35,0.05);'',
     ''        border-radius: 3px;'',
     ''        font-family: 'SFMono-Regular', Consolas, 'Liberation Mono', Menlo, monospace;'',
     ''      }'',
     ''      '',
     ''      pre {'',
     ''        padding: 1rem;'',
     ''        overflow: auto;'',
     ''        font-size: 85%;'',
     ''        line-height: 1.45;'',
     ''        background-color: #f6f8fa;'',
     ''        border-radius: 6px;'',
     ''        margin: 1rem 0;'',
     ''      }'',
     ''      '',
     ''      pre code {'',
     ''        background: transparent;'',
     ''        padding: 0;'',
     ''        margin: 0;'',
     ''        font-size: 100%;'',
     ''      }'',
     ''      '',
     ''      ul, ol {'',
     ''        padding-left: 2rem;'',
     ''        margin: 1rem 0;'',
     ''      }'',
     ''      '',
     ''      li {'',
     ''        margin: 0.25rem 0;'',
     ''      }'',
     ''      '',
     ''      table {'',
     ''        border-collapse: collapse;'',
     ''        width: 100%;'',
     ''        margin: 1rem 0;'',
     ''      }'',
     ''      '',
     ''      th, td {'',
     ''        border: 1px solid #dfe2e5;'',
     ''        padding: 6px 13px;'',
     ''        text-align: left;'',
     ''      }'',
     ''      '',
     ''      th {'',
     ''        background-color: #f6f8fa;'',
     ''        font-weight: 600;'',
     ''      }'',
     ''      '',
     ''      img {'',
     ''        max-width: 100%;'',
     ''        height: auto;'',
     ''        border-radius: 6px;'',
     ''      }'',
     ''      '',
     ''      hr {'',
     ''        border: none;'',
     ''        border-top: 2px solid #eaecef;'',
     ''        margin: 2rem 0;'',
     ''      }'',
     ''    ''])\<close>

text \<open>\<open>.replace(/></g, '>\n<')\<close>\<close>

fun breakBetweenTags :: "jsstring \<Rightarrow> jsstring" where
  "breakBetweenTags [] = []"
| "breakBetweenTags [c] = [c]"
| "breakBetweenTags (c # d # cs) =
     (if c = 62 \<and> d = 60 then 62 # 10 # 60 # breakBetweenTags cs
      else c # breakBetweenTags (d # cs))"

text \<open>
  \<open>.replace(/^\s+|\s+$/gm, '')\<close>. With the flag \<open>m\<close>, \<open>^\<close> holds after a line
  terminator and \<open>$\<close> before one. At an index where white space stands, the first
  alternative takes the whole run of white space when the index starts a line; the second
  takes the longest part of the run that is followed by the end of the string or by a line
  terminator. \<open>matchLength\<close> is the length of the match at the start of \<open>s\<close>, 0 for none;
  the flag says whether the index starts a line.
\<close>

definition isLineTerminator :: "nat \<Rightarrow> bool" where
  "isLineTerminator c \<longleftrightarrow> c = 10 \<or> c = 13 \<or> c = 8232 \<or> c = 8233"

definition matchLength :: "bool \<Rightarrow> jsstring \<Rightarrow> nat" where
  "matchLength lineStart s =
     (let run = takeWhile isWhiteSpace s in
      if lineStart \<or> length run = length s then length run
      else length (dropWhile (\<lambda>c. \<not> isLineTerminator c) (rev run)) - 1)"

function stripLineSpace :: "bool \<Rightarrow> jsstring \<Rightarrow> jsstring" where
  "stripLineSpace lineStart [] = []"
| "stripLineSpace lineStart (c # cs) =
     (let k = matchLength lineStart (c # cs) in
      if k = 0 then c # stripLineSpace (isLineTerminator c) cs
      else stripLineSpace (isLineTerminator ((c # cs) ! (k - 1))) (drop k (c # cs)))"
  by pat_completeness auto
termination
  by (relation "measure (\<lambda>(b, s). length s)") auto

fun split :: "nat \<Rightarrow> jsstring \<Rightarrow> jsstring list" where
  "split sep [] = [[]]"
| "split sep (c # cs) =
     (if c = sep then [] # split sep cs
      else (case split sep cs of [] \<Rightarrow> [[c]] | l # ls \<Rightarrow> (c # l) # ls))"

definition trim :: "jsstring \<Rightarrow> jsstring" where
  "trim s = rev (dropWhile isWhiteSpace (rev (dropWhile isWhiteSpace s)))"

text \<open>
  \<^verbatim>\<open>
  private prettifyHTML(html: string): string {
    return html
      .replace(/></g, '>\n<')
      .replace(/^\s+|\s+$/gm, '')
      .split('\n')
      .map(line => line.trim())
      .filter(line => line.length > 0)
      .join('\n');
  }
  \<close>
\<close>

definition prettifyHTML :: "jsstring \<Rightarrow> jsstring" where
  "prettifyHTML h =
     join [10] (filter (\<lambda>line. 0 < length line)
       (map trim (split 10 (stripLineSpace True (breakBetweenTags h)))))"

definition convertToHTML :: "env \<Rightarrow> ParsedMarkdown \<Rightarrow> jsstring \<Rightarrow> ConversionOptions \<Rightarrow> ConversionResult" where
  \<open>convertToHTML e parsed baseFilename options =
     (let metadata = (if includeMetadata options then generateMetadata e else []);
          styles = getHTMLStyles;
          htmlContent =
            str ''<!DOCTYPE html>'' @ [10] @
            str ''<html lang="en">'' @ [10] @
            str ''<head>'' @ [10] @
            str ''    <meta charset="UTF-8">'' @ [10] @
            str ''    <meta name="viewport" content="width=device-width, initial-scale=1.0">'' @ [10] @
            str ''    <title>'' @ baseFilename @ str ''</title>'' @ [10] @
            str ''    <style>'' @ styles @ str ''</style>'' @ [10] @
            str ''    '' @ metadata @ [10] @
            str ''</head>'' @ [10] @
            str ''<body>'' @ [10] @
            str ''    <article class="markdown-content">'' @ [10] @
            str ''        '' @ html parsed @ [10] @
            str ''    </article>'' @ [10] @
            str ''</body>'' @ [10] @
            str ''</html>''
      in \<lparr>content = (if prettify options then prettifyHTML htmlContent else htmlContent),
          filename = baseFilename @ str ''.html'',
          mimeType = str ''text/html'',
          success = True,
          error = None\<rparr>)\<close>

text \<open>The object \<open>jsonData\<close> of \<open>convertToJSON\<close>, before it is serialised.\<close>

definition jsonData :: "env \<Rightarrow> ParsedMarkdown \<Rightarrow> jsstring \<Rightarrow> ConversionOptions \<Rightarrow> json" where
  "jsonData e parsed baseFilename options =
     JObject
       [(''metadata'', JObject
           ([(''filename'', JString baseFilename),
             (''convertedAt'', JString (Date_toISOString e)),
             (''format'', JString (str ''json''))] @
            (if includeMetadata options
             then [(''generator'', JString (str ''Markdown Converter'')),
                   (''version'', JString (str ''1.0.0''))]
             else []))),
        (''content'', JObject
           [(''structure'', toJSON (tokens parsed)),
            (''html'', JString (html parsed)),
            (''plainText'', JString (plainText parsed))])]"

definition convertToJSON :: "env \<Rightarrow> ParsedMarkdown \<Rightarrow> jsstring \<Rightarrow> ConversionOptions \<Rightarrow> exn + ConversionResult" where
  "convertToJSON e parsed baseFilename options =
     (case JSON_stringify e (if prettify options then Some 2 else None)
             (jsonData e parsed baseFilename options) of
        Inl err \<Rightarrow> Inl err
      | Inr jsonString \<Rightarrow>
          Inr \<lparr>content = jsonString,
               filename = baseFilename @ str ''.json'',
               mimeType = str ''application/json'',
               success = True,
               error = None\<rparr>)"

definition convertToPlainText :: "env \<Rightarrow> ParsedMarkdown \<Rightarrow> jsstring \<Rightarrow> ConversionOptions \<Rightarrow> ConversionResult" where
  "convertToPlainText e parsed baseFilename options =
     (let metadata = join [10]
            [str ''File: '' @ baseFilename,
             str ''Converted: '' @ Date_toLocaleString e,
             str ''Format: Plain Text'',
             replicate 50 61,
             []];
          textContent = (if includeMetadata options then metadata @ plainText parsed
                         else plainText parsed)
      in \<lparr>content = textContent,
          filename = baseFilename @ str ''.txt'',
          mimeType = str ''text/plain'',
          success = True,
          error = None\<rparr>)"

text \<open>
  \<^verbatim>\<open>
  public convert(markdownContent: string, format: ConversionFormat,
                 options: ConversionOptions = {}): ConversionResult {
    try {
      const parsed = this.parser.parse(markdownContent);
      const baseFilename = this.getBaseFilename(options.originalFilename);
      switch (format) {
        case 'html': return this.convertToHTML(parsed, baseFilename, options);
        case 'json': return this.convertToJSON(parsed, baseFilename, options);
        case 'txt':  return this.convertToPlainText(parsed, baseFilename, options);
        default:     throw new Error(`Unsupported format: ${format}`);
      }
    } catch (error) {
      return { content: '', filename: '', mimeType: '', success: false,
               error: error instanceof Error ? error.message : 'Unknown error occurred' };
    }
  }
  \<close>
  The format is a string at run time, so the \<open>default\<close> branch is a branch of the
  model. \<open>convertBody\<close> is the block under \<open>try\<close>; \<open>convert\<close> is the whole method,
  whose result is again a sum: \<open>Inl\<close> would be an exception that leaves the method.
\<close>

definition convertBody :: "env \<Rightarrow> jsstring \<Rightarrow> jsstring \<Rightarrow> ConversionOptions \<Rightarrow> exn + ConversionResult" where
  "convertBody e markdownContent format options =
     (case parse e converterParserOptions markdownContent of
        Inl err \<Rightarrow> Inl err
      | Inr parsed \<Rightarrow>
          (let baseFilename = getBaseFilename e (originalFilename options) in
           if format = str ''html'' then Inr (convertToHTML e parsed baseFilename options)
           else if format = str ''json'' then convertToJSON e parsed baseFilename options
           else if format = str ''txt'' then Inr (convertToPlainText e parsed baseFilename options)
           else Inl (ErrorObj (str ''Unsupported format: '' @ format))))"

definition tryCatch :: "(exn + 'a) \<Rightarrow> (exn \<Rightarrow> exn + 'a) \<Rightarrow> exn + 'a" where
  "tryCatch body handler = (case body of Inl err \<Rightarrow> handler err | Inr v \<Rightarrow> Inr v)"

fun errorMessage :: "exn \<Rightarrow> jsstring \<Rightarrow> jsstring" where
  "errorMessage (ErrorObj message) fallback = message"
| "errorMessage NonError fallback = fallback"

definition convert :: "env \<Rightarrow> jsstring \<Rightarrow> jsstring \<Rightarrow> ConversionOptions \<Rightarrow> exn + ConversionResult" where
  "convert e markdownContent format options =
     tryCatch (convertBody e markdownContent format options)
       (\<lambda>err. Inr \<lparr>content = [], filename = [], mimeType = [], success = False,
                    error = Some (errorMessage err (str ''Unknown error occurred''))\<rparr>)"

section \<open>ConversionPanel.tsx: the caller of the converter\<close>

text \<open>
  \<^verbatim>\<open>
  const handleConvert = async (format: ConversionFormat) => {
    if (detectMaliciousContent(markdownContent)) {
      setConversionState(prev => ({ ...prev,
        [format]: { ...prev[format], error: 'Content contains potentially malicious elements' } }));
      return;
    }
    setConversionState(prev => ({ ...prev,
      [format]: { ...prev[format], isConverting: true, error: null } }));
    try {
      const result = converter.convert(markdownContent, format,
        { originalFilename, prettify: true, includeMetadata: true });
      setConversionState(prev => ({ ...prev,
        [format]: { result, isConverting: false,
                    error: result.success ? null : result.error || 'Conversion failed' } }));
    } catch (error) {
      setConversionState(prev => ({ ...prev,
        [format]: { ...prev[format], isConverting: false,
                    error: error instanceof Error ? error.message : 'Unknown error' } }));
    }
  };
  \<close>
  The component's state maps each format to an entry; the handler returns the state after
  its updates.
\<close>

record entry =
  result :: "ConversionResult option"
  isConverting :: bool
  entryError :: "jsstring option"

type_synonym ConversionState = "jsstring \<Rightarrow> entry"

definition initialState :: ConversionState where
  "initialState = (\<lambda>format. \<lparr>result = None, isConverting = False, entryError = None\<rparr>)"

definition handleConvert :: "env \<Rightarrow> ConversionState \<Rightarrow> jsstring \<Rightarrow> jsstring \<Rightarrow> jsstring \<Rightarrow> ConversionState" where
  "handleConvert e prev markdownContent original format =
     (if detectMaliciousContent markdownContent
      then prev(format := (prev format)
             \<lparr>entryError := Some (str ''Content contains potentially malicious elements'')\<rparr>)
      else
        (let started = prev(format := (prev format)\<lparr>isConverting := True, entryError := None\<rparr>) in
         case convert e markdownContent format
                \<lparr>originalFilename = Some original, prettify = True, includeMetadata = True\<rparr> of
           Inr res \<Rightarrow>
             started(format :=
               \<lparr>result = Some res, isConverting = False,
                entryError = (if success res then None
                              else Some (orElse (error res) (str ''Conversion failed'')))\<rparr>)
         | Inl err \<Rightarrow>
             started(format := (started format)
               \<lparr>isConverting := False,
                entryError := Some (errorMessage err (str ''Unknown error''))\<rparr>)))"

section \<open>An environment for concrete runs\<close>

text \<open>
  The closed examples below run the program in one fixed environment. On the one-line
  texts they use, its lexer returns what \<open>marked\<close> returns for a line of plain words, a
  single paragraph token; its parser wraps a token in \<open><p>\<close>; \<open>DOMPurify\<close> finds
  nothing to remove; a window exists; \<open>URL\<close> accepts the strings that start with
  \<open>http:\<close>; the clock stands at a fixed instant.
\<close>

definition sampleEnv :: env where
  "sampleEnv =
     \<lparr>marked_lexer = (\<lambda>opts s. Inr [Paragraph s s]),
      marked_parser = (\<lambda>opts r toks.
        Inr (concat (map (\<lambda>t. str ''<p>'' @ tokenToPlainText t @ str ''</p>'' @ [10]) toks))),
      DOMPurify_sanitize = (\<lambda>config h. Inr h),
      window_defined = True,
      URL_protocol = (\<lambda>url. if take 5 url = str ''http:'' then Some (str ''http:'') else None),
      Date_now = 1700000000000,
      Date_toISOString = str ''2023-11-14T22:13:20.000Z'',
      Date_toLocaleString = str ''11/14/2023, 10:13:20 PM'',
      JSON_stringify = (\<lambda>indent j. Inr (str ''{}''))\<rparr>"

definition sampleOptions :: ConversionOptions where
  "sampleOptions =
     \<lparr>originalFilename = Some (str ''notes.md''), prettify = False, includeMetadata = False\<rparr>"

section \<open>Filename sanitisation\<close>

lemma replaceUnsafe_map:
  "replaceUnsafe s = map (\<lambda>c. if safeFilenameChar c then c else 95) s"
  by (induction s) simp_all

lemma removeLeadingDots_dropWhile: "removeLeadingDots s = dropWhile (\<lambda>c. c = 46) s"
  by (induction s) simp_all

lemma allDots_iff: "allDots s \<longleftrightarrow> (\<forall>c\<in>set s. c = 46)"
  by (induction s) auto

lemma removeTrailingDots_dropWhile:
  "removeTrailingDots s = rev (dropWhile (\<lambda>c. c = 46) (rev s))"
proof (induction s)
  case Nil
  show ?case by simp
next
  case (Cons c cs)
  show ?case
  proof (cases "c = 46 \<and> allDots cs")
    case True
    then have "\<forall>x\<in>set (rev (c # cs)). x = 46"
      by (simp add: allDots_iff)
    then have "dropWhile (\<lambda>c. c = 46) (rev (c # cs)) = []"
      by (simp only: dropWhile_eq_Nil_conv)
    with True show ?thesis by simp
  next
    case False
    then have "\<exists>x\<in>set (c # cs). x \<noteq> 46"
      by (auto simp: allDots_iff)
    then have keep: "dropWhile (\<lambda>c. c = 46) (rev cs @ [c]) = dropWhile (\<lambda>c. c = 46) (rev cs) @ [c]"
      by (auto simp: dropWhile_append)
    from False Cons.IH keep show ?thesis by auto
  qed
qed

lemma underscore_safe: "safeFilenameChar 95"
  by (simp add: safeFilenameChar_def)

lemma replaceUnsafe_safe: "list_all safeFilenameChar (replaceUnsafe s)"
  by (induction s) (simp_all add: underscore_safe)

lemma list_all_removeLeadingDots: "list_all P s \<Longrightarrow> list_all P (removeLeadingDots s)"
  by (induction s) simp_all

lemma list_all_removeTrailingDots: "list_all P s \<Longrightarrow> list_all P (removeTrailingDots s)"
  by (induction s) simp_all

lemma list_all_take: "list_all P s \<Longrightarrow> list_all P (take n s)"
  by (simp add: list_all_iff) (meson in_set_takeD)

lemma removeLeadingDots_head: "take 1 (removeLeadingDots s) \<noteq> [46]"
  by (induction s) simp_all

lemma removeTrailingDots_head:
  "take 1 s \<noteq> [46] \<Longrightarrow> take 1 (removeTrailingDots s) \<noteq> [46]"
  by (cases s) auto

lemma take_head: "take 1 s \<noteq> [c] \<Longrightarrow> take 1 (take n s) \<noteq> [c]"
  by (cases s; cases n) auto

lemma sanitizeFilename_traversal:
  "sanitizeFilename (str ''../../etc/passwd.md'') = str ''_.._etc_passwd.md''"
  by (simp add: sanitizeFilename_def str_def substring0_def safeFilenameChar_def)

text \<open>
  C5. For every input string, \<open>sanitizeFilename\<close> replaces each character outside
  \<open>[A-Za-z0-9._-]\<close> with \<open>_\<close>, strips the leading and the trailing dots, and cuts the
  result to at most 255 characters. So every character of the result is in the class (no
  slash among them), the result has at most 255 characters and does not start with a dot;
  \<open>sanitizeFilename("../../etc/passwd.md")\<close> is \<open>_.._etc_passwd.md\<close>. (The cut comes
  last, so a result of 255 characters may end with a dot.)
\<close>

theorem sanitizeFilename_spec:
  "sanitizeFilename name =
     take 255 (rev (dropWhile (\<lambda>c. c = 46) (rev (dropWhile (\<lambda>c. c = 46)
       (map (\<lambda>c. if safeFilenameChar c then c else 95) name)))))
   \<and> length (sanitizeFilename name) \<le> 255
   \<and> list_all safeFilenameChar (sanitizeFilename name)
   \<and> 47 \<notin> set (sanitizeFilename name)
   \<and> take 1 (sanitizeFilename name) \<noteq> [46]
   \<and> sanitizeFilename (str ''../../etc/passwd.md'') = str ''_.._etc_passwd.md''"
proof -
  have pipeline: "sanitizeFilename name =
     take 255 (rev (dropWhile (\<lambda>c. c = 46) (rev (dropWhile (\<lambda>c. c = 46)
       (map (\<lambda>c. if safeFilenameChar c then c else 95) name)))))"
    by (simp only: sanitizeFilename_def substring0_def removeTrailingDots_dropWhile
        removeLeadingDots_dropWhile replaceUnsafe_map)
  have short: "length (sanitizeFilename name) \<le> 255"
    by (simp add: sanitizeFilename_def substring0_def)
  have safe: "list_all safeFilenameChar (sanitizeFilename name)"
    unfolding sanitizeFilename_def substring0_def
    by (intro list_all_take list_all_removeTrailingDots list_all_removeLeadingDots
        replaceUnsafe_safe)
  have "\<not> safeFilenameChar 47"
    by (simp add: safeFilenameChar_def)
  with safe have no_slash: "47 \<notin> set (sanitizeFilename name)"
    by (auto simp: list_all_iff)
  have no_dot: "take 1 (sanitizeFilename name) \<noteq> [46]"
    unfolding sanitizeFilename_def substring0_def
    by (intro take_head removeTrailingDots_head removeLeadingDots_head)
  from pipeline short safe no_slash no_dot sanitizeFilename_traversal show ?thesis
    by blast
qed

section \<open>The rate limiter\<close>

text \<open>
  C6. \<open>canMakeRequest\<close> keeps the timestamps \<open>time\<close> with \<open>now - time < windowMs\<close>,
  admits the request and records \<open>now\<close> when fewer than \<open>maxRequests\<close> are kept, and
  otherwise refuses and records nothing. With \<open>maxRequests = 2\<close> and \<open>windowMs = 1000\<close>,
  three calls at times \<open>t0 \<le> t1 \<le> t2\<close> less than 1000 ms apart return true, true,
  false, and a call at a time \<open>t3\<close> at least 1000 ms after the accepted requests returns
  true.
\<close>

theorem canMakeRequest_sliding_window:
  "canMakeRequest now rl =
     (if int (length (filter (\<lambda>time. now - time < windowMs rl) (requests rl))) < maxRequests rl
      then (True, rl\<lparr>requests := filter (\<lambda>time. now - time < windowMs rl) (requests rl) @ [now]\<rparr>)
      else (False, rl\<lparr>requests := filter (\<lambda>time. now - time < windowMs rl) (requests rl)\<rparr>))
   \<and> (t0 \<le> t1 \<and> t1 \<le> t2 \<and> t2 - t0 < 1000 \<and> 1000 \<le> t3 - t1 \<longrightarrow>
        (let (r1, rl1) = canMakeRequest t0 (newRateLimiter 2 1000);
             (r2, rl2) = canMakeRequest t1 rl1;
             (r3, rl3) = canMakeRequest t2 rl2;
             (r4, rl4) = canMakeRequest t3 rl3
         in r1 \<and> r2 \<and> \<not> r3 \<and> r4 \<and> requests rl3 = [t0, t1] \<and> requests rl4 = [t3]))"
  by (auto simp: canMakeRequest_def Let_def prune_def newRateLimiter_def)

text \<open>The run of C6 at the times 0, 400, 999 and 1400.\<close>

theorem canMakeRequest_sliding_window_witness:
  "(0::int) \<le> 400 \<and> (400::int) \<le> 999 \<and> (999::int) - 0 < 1000 \<and> (1000::int) \<le> 1400 - 400
   \<and> fst (canMakeRequest 0 (newRateLimiter 2 1000))
   \<and> fst (canMakeRequest 400 (snd (canMakeRequest 0 (newRateLimiter 2 1000))))
   \<and> \<not> fst (canMakeRequest 999 (snd (canMakeRequest 400 (snd (canMakeRequest 0
          (newRateLimiter 2 1000))))))
   \<and> fst (canMakeRequest 1400 (snd (canMakeRequest 999 (snd (canMakeRequest 400
          (snd (canMakeRequest 0 (newRateLimiter 2 1000))))))))"
  using canMakeRequest_sliding_window [of 0 "newRateLimiter 2 1000" 0 400 999 1400]
  by (simp add: canMakeRequest_def Let_def prune_def newRateLimiter_def)

lemma canMakeRequest_fields:
  "maxRequests (snd (canMakeRequest now rl)) = maxRequests rl"
  "windowMs (snd (canMakeRequest now rl)) = windowMs rl"
  by (simp_all add: canMakeRequest_def Let_def)

lemma getRemainingRequests_fields:
  "maxRequests (snd (getRemainingRequests now rl)) = maxRequests rl"
  "windowMs (snd (getRemainingRequests now rl)) = windowMs rl"
  by (simp_all add: getRemainingRequests_def Let_def)

lemma runCall_fields:
  "maxRequests (runCall rl c) = maxRequests rl" "windowMs (runCall rl c) = windowMs rl"
  by (cases c; simp add: canMakeRequest_fields getRemainingRequests_fields)+

lemma runCalls_fields:
  "maxRequests (runCalls rl cs) = maxRequests rl \<and> windowMs (runCalls rl cs) = windowMs rl"
  unfolding runCalls_def by (induction cs rule: rev_induct) (simp_all add: runCall_fields)

lemma length_prune: "length (prune now rl) \<le> length (requests rl)"
  by (simp add: prune_def)

lemma runCall_length:
  assumes "int (length (requests rl)) \<le> maxRequests rl"
  shows "int (length (requests (runCall rl c))) \<le> maxRequests rl"
proof (cases c)
  case (CanMakeRequest now)
  from assms length_prune [of now rl] show ?thesis
    by (auto simp: CanMakeRequest canMakeRequest_def Let_def)
next
  case (GetRemainingRequests now)
  from assms length_prune [of now rl] show ?thesis
    by (auto simp: GetRemainingRequests getRemainingRequests_def Let_def)
qed

lemma runCall_window:
  assumes "0 < windowMs rl" and "t \<in> set (requests (runCall rl c))"
  shows "callTime c - t < windowMs rl"
  using assms
  by (cases c)
    (auto simp: canMakeRequest_def getRemainingRequests_def Let_def prune_def split: if_splits)

lemma runCall_past:
  assumes "\<forall>t\<in>set (requests rl). t \<le> n" and "n \<le> callTime c"
    and "t \<in> set (requests (runCall rl c))"
  shows "t \<le> callTime c"
  using assms
  by (cases c)
    (auto simp: canMakeRequest_def getRemainingRequests_def Let_def prune_def split: if_splits)

lemma runCalls_length:
  assumes "0 \<le> m"
  shows "int (length (requests (runCalls (newRateLimiter m w) calls))) \<le> m"
proof (induction calls rule: rev_induct)
  case Nil
  from assms show ?case by (simp add: runCalls_def newRateLimiter_def)
next
  case (snoc c calls)
  let ?rl = "runCalls (newRateLimiter m w) calls"
  have m: "maxRequests ?rl = m"
    by (simp add: runCalls_fields newRateLimiter_def)
  from snoc m runCall_length [of ?rl c] show ?case
    by (simp add: runCalls_def)
qed

lemma runCalls_window:
  assumes "0 < w" and "calls \<noteq> []"
    and "t \<in> set (requests (runCalls (newRateLimiter m w) calls))"
  shows "callTime (last calls) - t < w"
proof -
  from assms(2) obtain cs c where calls: "calls = cs @ [c]"
    by (metis rev_exhaust)
  let ?rl = "runCalls (newRateLimiter m w) cs"
  have w: "windowMs ?rl = w"
    by (simp add: runCalls_fields newRateLimiter_def)
  from assms(3) have "t \<in> set (requests (runCall ?rl c))"
    by (simp add: calls runCalls_def)
  with runCall_window [of ?rl t c] w assms(1) show ?thesis
    by (simp add: calls)
qed

lemma runCalls_past:
  assumes "sorted (map callTime calls)" and "calls \<noteq> []"
    and "t \<in> set (requests (runCalls (newRateLimiter m w) calls))"
  shows "t \<le> callTime (last calls)"
  using assms
proof (induction calls arbitrary: t rule: rev_induct)
  case Nil
  then show ?case by simp
next
  case (snoc c calls)
  let ?rl = "runCalls (newRateLimiter m w) calls"
  from snoc.prems(3) have mem: "t \<in> set (requests (runCall ?rl c))"
    by (simp add: runCalls_def)
  show ?case
  proof (cases "calls = []")
    case True
    with mem show ?thesis
      by (cases c)
        (auto simp: runCalls_def newRateLimiter_def canMakeRequest_def
          getRemainingRequests_def Let_def prune_def split: if_splits)
  next
    case False
    from snoc.prems(1) have s: "sorted (map callTime calls)"
      and le: "callTime (last calls) \<le> callTime c"
      using False by (auto simp: sorted_append)
    from snoc.IH [OF s False] have "\<forall>t\<in>set (requests ?rl). t \<le> callTime (last calls)"
      by blast
    from runCall_past [OF this le mem] show ?thesis by simp
  qed
qed

lemma getRemainingRequests_range:
  assumes "0 \<le> maxRequests rl"
  shows "0 \<le> fst (getRemainingRequests now rl)
    \<and> fst (getRemainingRequests now rl) \<le> maxRequests rl"
  using assms by (simp add: getRemainingRequests_def Let_def)

text \<open>
  C10. For a limiter built with \<open>maxRequests \<ge> 0\<close> and \<open>windowMs > 0\<close> (the exported
  limiter has 10 and 60000), after any sequence of calls of \<open>canMakeRequest\<close> and
  \<open>getRemainingRequests\<close>, at any clock readings: the list holds at most \<open>maxRequests\<close>
  timestamps; each of them is less than \<open>windowMs\<close> before the time of the last call,
  which did the last pruning (and not after it, when the clock never ran backwards); and
  \<open>getRemainingRequests\<close> returns an integer from 0 to \<open>maxRequests\<close>.
\<close>

theorem rateLimiter_invariant:
  assumes "0 \<le> m" and "0 < w"
  shows "int (length (requests (runCalls (newRateLimiter m w) calls))) \<le> m
    \<and> (calls \<noteq> [] \<longrightarrow>
         (\<forall>t\<in>set (requests (runCalls (newRateLimiter m w) calls)).
            callTime (last calls) - t < w))
    \<and> (calls \<noteq> [] \<and> sorted (map callTime calls) \<longrightarrow>
         (\<forall>t\<in>set (requests (runCalls (newRateLimiter m w) calls)).
            t \<le> callTime (last calls)))
    \<and> 0 \<le> fst (getRemainingRequests now (runCalls (newRateLimiter m w) calls))
    \<and> fst (getRemainingRequests now (runCalls (newRateLimiter m w) calls)) \<le> m"
proof -
  let ?rl = "runCalls (newRateLimiter m w) calls"
  have mx: "maxRequests ?rl = m"
    by (simp add: runCalls_fields newRateLimiter_def)
  have bounded: "int (length (requests ?rl)) \<le> m"
    by (rule runCalls_length [OF assms(1)])
  have recent: "calls \<noteq> [] \<longrightarrow> (\<forall>t\<in>set (requests ?rl). callTime (last calls) - t < w)"
    using runCalls_window [OF assms(2)] by blast
  have past: "calls \<noteq> [] \<and> sorted (map callTime calls) \<longrightarrow>
      (\<forall>t\<in>set (requests ?rl). t \<le> callTime (last calls))"
    using runCalls_past by blast
  have remaining: "0 \<le> fst (getRemainingRequests now ?rl)
      \<and> fst (getRemainingRequests now ?rl) \<le> m"
    using getRemainingRequests_range [of ?rl now] assms(1) mx by simp
  from bounded recent past remaining show ?thesis by blast
qed

text \<open>
  A run of C10: five calls on a limiter of two requests per second; the third accepted
  request comes after the first one has left the window.
\<close>

theorem rateLimiter_invariant_witness:
  "(0::int) \<le> 2 \<and> (0::int) < 1000
   \<and> requests (runCalls (newRateLimiter 2 1000)
        [CanMakeRequest 0, CanMakeRequest 10, GetRemainingRequests 20, CanMakeRequest 30,
         CanMakeRequest 1005]) = [10, 1005]
   \<and> fst (getRemainingRequests 1006 (runCalls (newRateLimiter 2 1000)
        [CanMakeRequest 0, CanMakeRequest 10, GetRemainingRequests 20, CanMakeRequest 30,
         CanMakeRequest 1005])) = 0"
  using rateLimiter_invariant [of 2 1000
      "[CanMakeRequest 0, CanMakeRequest 10, GetRemainingRequests 20, CanMakeRequest 30,
        CanMakeRequest 1005]" 1006]
  by (simp add: runCalls_def newRateLimiter_def canMakeRequest_def getRemainingRequests_def
      prune_def Let_def)

section \<open>The malicious-content heuristic and the converter\<close>

lemma detect_onclick:
  \<open>detectMaliciousContent (str ''click <a onclick="evil()">here</a>'')\<close>
  by (simp add: detectMaliciousContent_def suspiciousPatterns_def lits_def str_def
      toUpperASCII_def isWhiteSpace_def)

lemma detect_javascript: "detectMaliciousContent (str ''javascript:'')"
  by (simp add: detectMaliciousContent_def suspiciousPatterns_def lits_def str_def
      toUpperASCII_def isWhiteSpace_def)

lemma getBaseFilename_notes: "getBaseFilename sampleEnv (Some (str ''notes.md'')) = str ''notes''"
  by (simp add: getBaseFilename_def sanitizeFilename_def substring0_def str_def
      safeFilenameChar_def)

lemma parse_javascript:
  "parse sampleEnv converterParserOptions (str ''javascript:'') =
     Inr \<lparr>html = str ''<p>javascript:</p>'' @ [10],
          tokens = [Paragraph (str ''javascript:'') (str ''javascript:'')],
          plainText = str ''javascript:''\<rparr>"
  by (simp add: parse_def sampleEnv_def converterParserOptions_def toPlainText_def str_def)

lemma convertBody_success:
  "convertBody e markdownContent format options = Inr r \<Longrightarrow> success r \<and> error r = None"
  by (auto simp: convertBody_def convertToHTML_def convertToJSON_def convertToPlainText_def
      Let_def split: sum.splits if_splits)

text \<open>
  C2. For every environment (whatever the libraries return or throw), text, format and
  options, \<open>convert\<close> returns a result and no exception leaves it. A result with
  \<open>success\<close> false has empty \<open>content\<close>, \<open>filename\<close> and \<open>mimeType\<close> and carries
  an \<open>error\<close>; a result with \<open>success\<close> true carries none.
\<close>

theorem convert_always_returns:
  "\<exists>r. convert e markdownContent format options = Inr r
     \<and> (\<not> success r \<longrightarrow>
          content r = [] \<and> filename r = [] \<and> mimeType r = [] \<and> error r \<noteq> None)
     \<and> (success r \<longrightarrow> error r = None)"
proof (cases "convertBody e markdownContent format options")
  case (Inl err)
  then show ?thesis
    by (simp add: convert_def tryCatch_def)
next
  case (Inr r)
  with convertBody_success [OF Inr] show ?thesis
    by (simp add: convert_def tryCatch_def)
qed

text \<open>
  Three runs of C2: a format that is not supported, a lexer that throws a value that is
  not an \<open>Error\<close>, and a conversion to plain text that succeeds.
\<close>

theorem convert_always_returns_witness:
  "convert sampleEnv (str ''Some text'') (str ''pdf'') sampleOptions =
     Inr \<lparr>content = [], filename = [], mimeType = [], success = False,
          error = Some (str ''Unsupported format: pdf'')\<rparr>
   \<and> convert (sampleEnv\<lparr>marked_lexer := (\<lambda>opts s. Inl NonError)\<rparr>) (str ''Some text'') (str ''txt'')
       sampleOptions =
     Inr \<lparr>content = [], filename = [], mimeType = [], success = False,
          error = Some (str ''Unknown error occurred'')\<rparr>
   \<and> convert sampleEnv (str ''Some text'') (str ''txt'') sampleOptions =
     Inr \<lparr>content = str ''Some text'', filename = str ''notes.txt'', mimeType = str ''text/plain'',
          success = True, error = None\<rparr>"
  using convert_always_returns [of sampleEnv "str ''Some text''" "str ''pdf''" sampleOptions]
  by (simp add: convert_def tryCatch_def convertBody_def parse_def sampleEnv_def
      converterParserOptions_def toPlainText_def sampleOptions_def getBaseFilename_def
      sanitizeFilename_def substring0_def safeFilenameChar_def convertToPlainText_def
      Let_def str_def)

text \<open>
  C3 as stated fails: \<open>convert\<close> never calls \<open>detectMaliciousContent\<close>. The text
  \<open>javascript:\<close> matches the second signature, and \<open>convert\<close> turns it into plain text
  with \<open>success\<close> true.
\<close>

theorem convert_malicious_counterexample:
  "detectMaliciousContent (str ''javascript:'')
   \<and> convert sampleEnv (str ''javascript:'') (str ''txt'') sampleOptions =
       Inr \<lparr>content = str ''javascript:'', filename = str ''notes.txt'',
            mimeType = str ''text/plain'', success = True, error = None\<rparr>"
  apply (rule conjI)
   apply (rule detect_javascript)
  apply (simp add: convert_def tryCatch_def convertBody_def parse_javascript sampleOptions_def
      getBaseFilename_notes Let_def)
  apply (simp add: convertToPlainText_def Let_def str_def)
  done

text \<open>
  C3, amended. \<open>detectMaliciousContent("click <a onclick=\"evil()\">here</a>")\<close> is
  true. The check is made by the caller: for every text on which
  \<open>detectMaliciousContent\<close> is true, \<open>handleConvert\<close> records the error
  \<open>Content contains potentially malicious elements\<close> for the format, does not call
  \<open>convert\<close>, and leaves the stored result of the format as it was.
\<close>

theorem handleConvert_refuses_malicious:
  \<open>detectMaliciousContent (str ''click <a onclick="evil()">here</a>'')
   \<and> (detectMaliciousContent markdownContent \<longrightarrow>
        handleConvert e prev markdownContent original format =
          prev(format := (prev format)
            \<lparr>entryError := Some (str ''Content contains potentially malicious elements'')\<rparr>)
        \<and> result (handleConvert e prev markdownContent original format format) =
            result (prev format))\<close>
  using detect_onclick by (simp add: handleConvert_def)

text \<open>The handler on the text \<open>javascript:\<close>, from the initial state of the panel.\<close>

theorem handleConvert_refuses_malicious_witness:
  "detectMaliciousContent (str ''javascript:'')
   \<and> handleConvert sampleEnv initialState (str ''javascript:'') (str ''notes.md'') (str ''txt'')
       (str ''txt'') =
       \<lparr>result = None, isConverting = False,
        entryError = Some (str ''Content contains potentially malicious elements'')\<rparr>"
  using handleConvert_refuses_malicious
    [of "str ''javascript:''" sampleEnv initialState "str ''notes.md''" "str ''txt''"]
    detect_javascript
  by (simp add: initialState_def)

section \<open>The parser object\<close>

text \<open>
  C4. \<open>sanitizeUrl(url)\<close> returns \<open>url\<close> when \<open>new URL(url)\<close> succeeds with a
  protocol among \<open>http:\<close>, \<open>https:\<close>, \<open>mailto:\<close>, and the placeholder \<open>#\<close> in
  every other case: another protocol, or a URL that does not parse. So, for every
  \<open>url\<close> other than the placeholder itself, it returns \<open>url\<close> unchanged if and only if
  \<open>url\<close> parses with one of the three schemes.
\<close>

theorem sanitizeUrl_scheme:
  "sanitizeUrl e url =
     (if URL_protocol e url \<in> {Some (str ''http:''), Some (str ''https:''), Some (str ''mailto:'')}
      then url else str ''#'')
   \<and> (url \<noteq> str ''#'' \<longrightarrow>
        (sanitizeUrl e url = url \<longleftrightarrow>
         URL_protocol e url \<in>
           {Some (str ''http:''), Some (str ''https:''), Some (str ''mailto:'')}))"
  by (auto simp: sanitizeUrl_def safeProtocols_def split: option.splits)

text \<open>Two runs of C4: a URL with the scheme \<open>http\<close>, and one that is refused.\<close>

theorem sanitizeUrl_scheme_witness:
  "str ''http://a.b/c'' \<noteq> str ''#''
   \<and> sanitizeUrl sampleEnv (str ''http://a.b/c'') = str ''http://a.b/c''
   \<and> sanitizeUrl sampleEnv (str ''javascript:alert(1)'') = str ''#''"
  using sanitizeUrl_scheme [of sampleEnv "str ''http://a.b/c''"]
    sanitizeUrl_scheme [of sampleEnv "str ''javascript:alert(1)''"]
  by (simp add: sampleEnv_def str_def)



lemma parse_plainText:
  "parse e opts markdown = Inr p \<Longrightarrow>
     marked_lexer e (configuredOptions opts) markdown = Inr (tokens p)
     \<and> plainText p = toPlainText (tokens p)"
  by (auto simp: parse_def split: sum.splits if_splits)

lemma parse_html:
  "parse e opts markdown = Inr p \<Longrightarrow>
     (if sanitize opts \<and> window_defined e
      then \<exists>rendered.
             marked_parser e (configuredOptions opts) (configuredRenderer e opts) (tokens p)
               = Inr rendered
             \<and> DOMPurify_sanitize e sanitizeConfig rendered = Inr (html p)
      else marked_parser e (configuredOptions opts) (configuredRenderer e opts) (tokens p)
             = Inr (html p))"
  by (auto simp: parse_def split: sum.splits if_splits)



section \<open>The plain-text and the JSON rendering of tokens\<close>

lemma itemsToPlainText_ordered:
  "itemsToPlainText True i items =
     map (\<lambda>(k, item). numberToString (int k + 1) @ [46, 32] @ itemText item)
       (zip [i..<i + length items] items)"
proof (induction items arbitrary: i)
  case Nil
  show ?case by simp
next
  case (Cons item items)
  have "[i..<i + length (item # items)] = i # [Suc i..<Suc i + length items]"
    by (simp add: upt_rec)
  with Cons.IH [of "Suc i"] show ?case
    by (simp add: bullet_def)
qed

lemma itemsToPlainText_unordered:
  "itemsToPlainText False i items = map (\<lambda>item. [226, 8364, 162, 32] @ itemText item) items"
  by (induction items arbitrary: i) (simp_all add: bullet_def unorderedBullet_def)

text \<open>
  What the plain-text renderer does with each block: a heading of depth \<open>n\<close> gets
  \<open>n\<close> characters \<open>#\<close> and a space, the item of index \<open>k\<close> of an ordered list gets
  \<open>k + 1\<close>, a dot and a space, a code block stands between two fences of three
  backticks, the first followed by the language, a blockquote gets \<open>> \<close>, a
  horizontal rule is \<open>---\<close>, and the blocks are joined by a blank line.
\<close>

lemma tokenToPlainText_blocks:
  "tokenToPlainText (Heading raw n txt) = replicate n 35 @ [32] @ txt"
  "tokenToPlainText (ListTok raw True items) =
     join [10] (map (\<lambda>(k, item). numberToString (int k + 1) @ [46, 32] @ itemText item)
       (zip [0..<length items] items))"
  "tokenToPlainText (CodeTok raw (Some lang) txt) =
     str ''```'' @ lang @ [10] @ txt @ [10] @ str ''```''"
  "tokenToPlainText (CodeTok raw None txt) = str ''```'' @ [10] @ txt @ [10] @ str ''```''"
  "tokenToPlainText (Blockquote raw txt) = str ''> '' @ txt"
  "tokenToPlainText (Hr raw) = str ''---''"
  "toPlainText toks = join (str ''\<newline>\<newline>'') (map tokenToPlainText toks)"
  by (simp_all add: itemsToPlainText_ordered [of 0, simplified] str_def toPlainText_def)

text \<open>
  C8, where the code departs from it. The claim has the items of an unordered list
  prefixed with the bullet U+2022. The program prefixes them with the three characters
  U+00E2, U+20AC, U+00A2: the list of the items \<open>a\<close> and \<open>b\<close> is rendered as the code
  units 226, 8364, 162, space, \<open>a\<close>, line feed, 226, 8364, 162, space, \<open>b\<close>, and not as
  8226, space, \<open>a\<close>, line feed, 8226, space, \<open>b\<close>.
\<close>

theorem tokenToPlainText_unordered_bullet:
  "tokenToPlainText (ListTok raw False [ListItem (str ''a''), ListItem (str ''b'')]) =
     [226, 8364, 162, 32, 97, 10, 226, 8364, 162, 32, 98]
   \<and> tokenToPlainText (ListTok raw False [ListItem (str ''a''), ListItem (str ''b'')]) \<noteq>
     [8226, 32, 97, 10, 8226, 32, 98]"
  by (simp add: bullet_def unorderedBullet_def str_def)

text \<open>
  What the JSON renderer does with each token, and where the tree goes: the document has
  one child per token, in order, and \<open>convertToJSON\<close> puts it under
  \<open>content.structure\<close>.
\<close>

lemma tokenToJSON_fields:
  "tokenToJSON (Heading raw n txt) =
     JObject [(''type'', JString (str ''heading'')), (''level'', JNumber (int n)),
              (''text'', JString txt)]"
  "tokenToJSON (Paragraph raw txt) =
     JObject [(''type'', JString (str ''paragraph'')), (''text'', JString txt)]"
  "tokenToJSON (ListTok raw ordered items) =
     JObject [(''type'', JString (str ''list'')), (''ordered'', JBool ordered),
              (''items'', JArray (map (\<lambda>item. JObject [(''type'', JString (str ''list_item'')),
                                                        (''text'', JString (itemText item))]) items))]"
  "tokenToJSON (CodeTok raw (Some (str ''js'')) txt) =
     JObject [(''type'', JString (str ''code'')), (''language'', JString (str ''js'')),
              (''code'', JString txt)]"
  "tokenToJSON (CodeTok raw None txt) =
     JObject [(''type'', JString (str ''code'')), (''language'', JString (str ''text'')),
              (''code'', JString txt)]"
  "tokenToJSON (Blockquote raw txt) =
     JObject [(''type'', JString (str ''blockquote'')), (''text'', JString txt)]"
  "tokenToJSON (OtherTok ty raw) = JObject [(''type'', JString ty), (''raw'', JString raw)]"
  by (simp_all add: base_def str_def)

lemma jsonData_structure:
  "parse e opts markdown = Inr p \<Longrightarrow>
     marked_lexer e (configuredOptions opts) markdown = Inr toks \<Longrightarrow>
     jsonData e p baseFilename options =
       JObject
         [(''metadata'', JObject
             ([(''filename'', JString baseFilename),
               (''convertedAt'', JString (Date_toISOString e)),
               (''format'', JString (str ''json''))] @
              (if includeMetadata options
               then [(''generator'', JString (str ''Markdown Converter'')),
                     (''version'', JString (str ''1.0.0''))]
               else []))),
          (''content'', JObject
             [(''structure'', JObject [(''type'', JString (str ''document'')),
                                       (''children'', JArray (map tokenToJSON toks))]),
              (''html'', JString (html p)),
              (''plainText'', JString (toPlainText toks))])]"
  using parse_plainText [of e opts markdown p] by (simp add: jsonData_def toJSON_def)

end
